theory Spec2Isabelle
  imports Complex_Main "HOL-Library.Sublist"
begin

section \<open>Python values\<close>

text \<open>
  The scripts pass around what \<^verbatim>\<open>json.loads\<close> produces and what they build themselves:
  \<^verbatim>\<open>None\<close>, booleans, integers, floats, strings, lists and dictionaries. A dictionary is an
  association list in insertion order; its keys are Python values, since
  \<^verbatim>\<open>dict.update\<close> on a list of pairs can insert keys that are not strings.
  A string is a list of characters, each a code point below 256. The whitespace class
  below is Python's on that range. The case mappings are Python's on the ASCII letters
  and leave every other character alone; below 256 Python maps no other character onto
  an ASCII letter (only \<^verbatim>\<open>0xDF\<close>, to \<^verbatim>\<open>SS\<close>), so the comparisons with \<^verbatim>\<open>VALID\<close> and with the
  markers come out as in Python.
  A float is its rational value; the literals \<^verbatim>\<open>NaN\<close> and \<^verbatim>\<open>Infinity\<close> are not represented.
\<close>

datatype pyval =
    PNone
  | PBool bool
  | PInt int
  | PFloat rat
  | PStr string
  | PList "pyval list"
  | PDict "(pyval \<times> pyval) list"

type_synonym pydict = "(pyval \<times> pyval) list"

text \<open>
  Exceptions the built-in operations used by the scripts can raise. \<open>LibraryError\<close> is
  any other exception of class \<^verbatim>\<open>Exception\<close> that a library call raises (a read that
  fails, \<^verbatim>\<open>ValueError\<close> or \<^verbatim>\<open>RecursionError\<close> from \<^verbatim>\<open>json.loads\<close>), named by its class.
\<close>

datatype exc =
    NotIterable pyval
  | ElementNotSequence nat
  | ElementLength nat nat
  | Unhashable pyval
  | NoAttribute pyval string
  | LibraryError string

text \<open>Truthiness, as \<^verbatim>\<open>if x\<close>, \<^verbatim>\<open>not x\<close> and \<^verbatim>\<open>x or y\<close> test it.\<close>

fun truthy :: "pyval \<Rightarrow> bool" where
  "truthy PNone = False"
| "truthy (PBool b) = b"
| "truthy (PInt i) = (i \<noteq> 0)"
| "truthy (PFloat q) = (q \<noteq> 0)"
| "truthy (PStr s) = (s \<noteq> [])"
| "truthy (PList xs) = (xs \<noteq> [])"
| "truthy (PDict kvs) = (kvs \<noteq> [])"

definition py_or :: "pyval \<Rightarrow> pyval \<Rightarrow> pyval" where
  "py_or a b = (if truthy a then a else b)"

fun is_str :: "pyval \<Rightarrow> bool" where
  "is_str (PStr s) = True"
| "is_str v = False"

fun is_dict :: "pyval \<Rightarrow> bool" where
  "is_dict (PDict kvs) = True"
| "is_dict v = False"

text \<open>\<^verbatim>\<open>isinstance(v, int)\<close>: \<^verbatim>\<open>bool\<close> is a subclass of \<^verbatim>\<open>int\<close>.\<close>

fun is_int :: "pyval \<Rightarrow> bool" where
  "is_int (PInt i) = True"
| "is_int (PBool b) = True"
| "is_int v = False"

text \<open>\<^verbatim>\<open>v in codes\<close> for a list of integers: comparison by value, \<^verbatim>\<open>True == 1\<close>.\<close>

fun in_codes :: "pyval \<Rightarrow> int list \<Rightarrow> bool" where
  "in_codes (PInt i) codes = (i \<in> set codes)"
| "in_codes (PBool b) codes = ((if b then 1 else 0) \<in> set codes)"
| "in_codes (PFloat q) codes = (q \<in> of_int ` set codes)"
| "in_codes v codes = False"

text \<open>\<^verbatim>\<open>v == n\<close> for an integer literal \<open>n\<close>: numbers compare by value.\<close>

fun py_eq_int :: "pyval \<Rightarrow> int \<Rightarrow> bool" where
  "py_eq_int (PInt i) n = (i = n)"
| "py_eq_int (PBool b) n = ((if b then 1 else 0) = n)"
| "py_eq_int (PFloat q) n = (q = of_int n)"
| "py_eq_int v n = False"

subsection \<open>Strings\<close>

definition upper_char :: "char \<Rightarrow> char" where
  "upper_char c =
     (case map_of (zip ''abcdefghijklmnopqrstuvwxyz'' ''ABCDEFGHIJKLMNOPQRSTUVWXYZ'') c of
        Some u \<Rightarrow> u | None \<Rightarrow> c)"

definition lower_char :: "char \<Rightarrow> char" where
  "lower_char c =
     (case map_of (zip ''ABCDEFGHIJKLMNOPQRSTUVWXYZ'' ''abcdefghijklmnopqrstuvwxyz'') c of
        Some l \<Rightarrow> l | None \<Rightarrow> c)"

definition str_upper :: "string \<Rightarrow> string" where
  "str_upper s = map upper_char s"

definition str_lower :: "string \<Rightarrow> string" where
  "str_lower s = map lower_char s"

text \<open>
  \<^verbatim>\<open>str.isspace\<close> below 256, the characters \<^verbatim>\<open>str.strip\<close> removes: tab, line feed,
  vertical tab, form feed, carriage return, the four separators 0x1C to 0x1F, the
  space, next line (0x85) and the no-break space (0xA0).
\<close>

definition is_space :: "char \<Rightarrow> bool" where
  "is_space c =
     (c \<in> set [CHR 0x09, CHR 0x0A, CHR 0x0B, CHR 0x0C, CHR 0x0D,
                CHR 0x1C, CHR 0x1D, CHR 0x1E, CHR 0x1F, CHR 0x20, CHR 0x85, CHR 0xA0])"

definition str_strip :: "string \<Rightarrow> string" where
  "str_strip s = rev (dropWhile is_space (rev (dropWhile is_space s)))"

text \<open>\<^verbatim>\<open>sub in s\<close> for two strings.\<close>

fun is_substring :: "string \<Rightarrow> string \<Rightarrow> bool" where
  "is_substring sub [] = (sub = [])"
| "is_substring sub (c # cs) = (prefix sub (c # cs) \<or> is_substring sub cs)"

text \<open>
  \<^verbatim>\<open>sub in v\<close> for a string \<open>sub\<close> and any value \<open>v\<close>: a substring test on a string,
  membership in a list, key membership in a dictionary, \<^verbatim>\<open>TypeError\<close> otherwise.
\<close>

fun str_in :: "string \<Rightarrow> pyval \<Rightarrow> exc + bool" where
  "str_in sub (PStr s) = Inr (is_substring sub s)"
| "str_in sub (PList xs) = Inr (PStr sub \<in> set xs)"
| "str_in sub (PDict kvs) = Inr (PStr sub \<in> fst ` set kvs)"
| "str_in sub v = Inl (NotIterable v)"

text \<open>\<^verbatim>\<open>v.lower()\<close>: only strings have the method.\<close>

fun py_lower :: "pyval \<Rightarrow> exc + string" where
  "py_lower (PStr s) = Inr (str_lower s)"
| "py_lower v = Inl (NoAttribute v ''lower'')"

subsection \<open>Dictionaries\<close>

text \<open>\<^verbatim>\<open>d.get(k)\<close>, \<^verbatim>\<open>d.get(k, default)\<close> and \<^verbatim>\<open>k in d\<close> for a string key.\<close>

definition dict_get_default :: "pydict \<Rightarrow> string \<Rightarrow> pyval \<Rightarrow> pyval" where
  "dict_get_default d k dflt = (case map_of d (PStr k) of None \<Rightarrow> dflt | Some v \<Rightarrow> v)"

definition dict_get :: "pydict \<Rightarrow> string \<Rightarrow> pyval" where
  "dict_get d k = dict_get_default d k PNone"

definition dict_has :: "pydict \<Rightarrow> string \<Rightarrow> bool" where
  "dict_has d k = (map_of d (PStr k) \<noteq> None)"

text \<open>
  Dictionary keys compare by \<^verbatim>\<open>==\<close>: numbers by value across \<^verbatim>\<open>bool\<close>, \<^verbatim>\<open>int\<close> and
  \<^verbatim>\<open>float\<close>, everything else structurally. Lists and dictionaries are not hashable.
\<close>

fun key_num :: "pyval \<Rightarrow> rat option" where
  "key_num (PBool b) = Some (if b then 1 else 0)"
| "key_num (PInt i) = Some (of_int i)"
| "key_num (PFloat q) = Some q"
| "key_num v = None"

definition key_eq :: "pyval \<Rightarrow> pyval \<Rightarrow> bool" where
  "key_eq a b =
     (case (key_num a, key_num b) of
        (Some x, Some y) \<Rightarrow> x = y
      | (None, None) \<Rightarrow> a = b
      | _ \<Rightarrow> False)"

fun hashable :: "pyval \<Rightarrow> bool" where
  "hashable (PList xs) = False"
| "hashable (PDict kvs) = False"
| "hashable v = True"

text \<open>\<^verbatim>\<open>d[k] = v\<close>: an existing key keeps its place (and its key object), a new one goes last.\<close>

fun dict_set :: "pydict \<Rightarrow> pyval \<Rightarrow> pyval \<Rightarrow> pydict" where
  "dict_set [] k v = [(k, v)]"
| "dict_set ((k', v') # d) k v =
     (if key_eq k' k then (k', v) # d else (k', v') # dict_set d k v)"

text \<open>
  \<^verbatim>\<open>d.update(x)\<close>. A dictionary is merged key by key. Any other iterable is read as a
  sequence of key/value pairs: element \<open>i\<close> must itself be an iterable of length 2 (a
  list, a string of two characters, a dictionary with two keys) and its first
  component must be hashable; the first element that is not raises, and the caller
  drops the dictionary. A value that is not iterable raises \<^verbatim>\<open>TypeError\<close>.
\<close>

fun pair_of :: "nat \<Rightarrow> pyval \<Rightarrow> exc + (pyval \<times> pyval)" where
  "pair_of i (PList [k, v]) = Inr (k, v)"
| "pair_of i (PList xs) = Inl (ElementLength i (length xs))"
| "pair_of i (PStr [a, b]) = Inr (PStr [a], PStr [b])"
| "pair_of i (PStr t) = Inl (ElementLength i (length t))"
| "pair_of i (PDict [(k1, v1), (k2, v2)]) = Inr (k1, k2)"
| "pair_of i (PDict kvs) = Inl (ElementLength i (length kvs))"
| "pair_of i v = Inl (ElementNotSequence i)"

fun update_seq :: "pydict \<Rightarrow> nat \<Rightarrow> pyval list \<Rightarrow> exc + pydict" where
  "update_seq d i [] = Inr d"
| "update_seq d i (x # xs) =
     (case pair_of i x of
        Inl e \<Rightarrow> Inl e
      | Inr (k, v) \<Rightarrow>
          if hashable k then update_seq (dict_set d k v) (Suc i) xs else Inl (Unhashable k))"

fun dict_update :: "pydict \<Rightarrow> pyval \<Rightarrow> exc + pydict" where
  "dict_update d (PDict kvs) = Inr (fold (\<lambda>(k, v) acc. dict_set acc k v) kvs d)"
| "dict_update d (PList xs) = update_seq d 0 xs"
| "dict_update d (PStr t) = update_seq d 0 (map (\<lambda>c. PStr [c]) t)"
| "dict_update d v = Inl (NotIterable v)"

text \<open>
  When \<^verbatim>\<open>d.update(x)\<close> raises, said without running it: an element is a pair when it
  is an iterable of length 2 with a hashable first component; the update raises on a
  value that is not iterable, on a string that is not empty (its elements are single
  characters) and on a list with an element that is not a pair.
\<close>

definition is_pair :: "pyval \<Rightarrow> bool" where
  "is_pair x = (case pair_of 0 x of Inr (k, v) \<Rightarrow> hashable k | Inl e \<Rightarrow> False)"

fun update_raises :: "pyval \<Rightarrow> bool" where
  "update_raises (PDict kvs) = False"
| "update_raises (PList xs) = list_ex (\<lambda>x. \<not> is_pair x) xs"
| "update_raises (PStr t) = (t \<noteq> [])"
| "update_raises v = True"

subsection \<open>Integers as text\<close>

text \<open>\<^verbatim>\<open>str(n)\<close> for an integer, as the f-string \<^verbatim>\<open>f"HTTP {e.code}"\<close> formats it.\<close>

definition digit_char :: "nat \<Rightarrow> char" where
  "digit_char d = ''0123456789'' ! d"

function str_nat :: "nat \<Rightarrow> string" where
  "str_nat n = (if n < 10 then [digit_char n] else str_nat (n div 10) @ [digit_char (n mod 10)])"
  by pat_completeness auto
termination
  by (relation "measure id") auto

declare str_nat.simps [simp del]

definition str_int :: "int \<Rightarrow> string" where
  "str_int i = (if i < 0 then CHR ''-'' # str_nat (nat (- i)) else str_nat (nat i))"

section \<open>Process state\<close>

text \<open>
  The scripts keep the call mode in the global \<^verbatim>\<open>method_type\<close> and write log lines;
  \<open>requests\<close> records every request handed to the network, as (method, url, payload).
  A log line is kept as its fixed text, without the interpolated values.
\<close>

record state =
  method_type :: string
  log_lines :: "string list"
  requests :: "(string \<times> string \<times> pyval) list"

definition log_line :: "string \<Rightarrow> state \<Rightarrow> state" where
  "log_line msg s = s\<lparr>log_lines := log_lines s @ [msg]\<rparr>"

section \<open>The outcome classifier\<close>

text \<open>
  Both versions of \<^verbatim>\<open>ok\<close> test a message for the same two markers:
  \<^verbatim>\<open>"Description: " in error_msg or "chaincode response" in error_msg.lower()\<close>.
  The second operand is evaluated only when the first is false.
\<close>

definition has_marker :: "pyval \<Rightarrow> exc + bool" where
  "has_marker error_msg =
     (case str_in ''Description: '' error_msg of
        Inl e \<Rightarrow> Inl e
      | Inr True \<Rightarrow> Inr True
      | Inr False \<Rightarrow>
          (case py_lower error_msg of
             Inl e \<Rightarrow> Inl e
           | Inr l \<Rightarrow> Inr (is_substring ''chaincode response'' l)))"

text \<open>
  \<^verbatim>\<open>error_msg = r["details"].get("error", "") or r["details"].get("message", "")\<close>
  followed by the marker test, for a \<^verbatim>\<open>details\<close> that is a dictionary.
\<close>

fun details_marker :: "pyval \<Rightarrow> exc + bool" where
  "details_marker (PDict d) =
     has_marker (py_or (dict_get_default d ''error'' (PStr [])) (dict_get_default d ''message'' (PStr [])))"
| "details_marker v = Inr False"

definition expected_codes :: "int list option \<Rightarrow> state \<Rightarrow> int list" where
  "expected_codes expected_status_codes s =
     (case expected_status_codes of
        None \<Rightarrow> (if method_type s = ''invoke'' then [202] else [200])
      | Some codes \<Rightarrow> codes)"

definition status_is_valid :: "pyval \<Rightarrow> bool" where
  "status_is_valid status = (case status of PStr t \<Rightarrow> str_upper t = ''VALID'' | _ \<Rightarrow> False)"

subsection \<open>test.py\<close>

text \<open>The part of \<^verbatim>\<open>ok\<close> after the status checks (test.py lines 278 to 286).\<close>

definition ok_test_rest :: "pydict \<Rightarrow> state \<Rightarrow> (exc + bool) \<times> state" where
  "ok_test_rest r s =
     (let s1 = log_line ''DEBUG ok(): Status not in expected and not VALID for invoke.'' s in
      if truthy (dict_get r ''details'') \<and> is_dict (dict_get r ''details'')
      then (case details_marker (dict_get r ''details'') of
              Inl e \<Rightarrow> (Inl e, s1)
            | Inr True \<Rightarrow> (Inr False, log_line ''DEBUG ok(): Chaincode-level error indicated in details.'' s1)
            | Inr False \<Rightarrow> (Inr False, s1))
      else (Inr False, s1))"

text \<open>The branch for a query with status 200 (test.py lines 257 to 272).\<close>

definition ok_test_query200 :: "pydict \<Rightarrow> state \<Rightarrow> (exc + bool) \<times> state" where
  "ok_test_query200 r s =
     (let s1 = (if \<not> dict_has r ''result'' \<and>
                   \<not> (dict_get r ''raw'' = PStr [] \<or> (\<not> truthy (dict_get r ''details'') \<and> length r \<le> 2))
                then log_line ''DEBUG ok(): Query HTTP 200 but result field missing and not a clear empty response.'' s
                else s) in
      if truthy (dict_get r ''details'') \<and> is_dict (dict_get r ''details'')
      then (case details_marker (dict_get r ''details'') of
              Inl e \<Rightarrow> (Inl e, s)
            | Inr True \<Rightarrow> (Inr False, log_line ''DEBUG ok(): Query HTTP 200 but chaincode-level error indicated.'' s)
            | Inr False \<Rightarrow> (Inr True, s1))
      else (Inr True, s1))"

definition ok_test :: "pydict \<Rightarrow> int list option \<Rightarrow> state \<Rightarrow> (exc + bool) \<times> state" where
  "ok_test r expected_status_codes s =
     (let expected = expected_codes expected_status_codes s;
          status = dict_get r ''status''
      in if method_type s = ''invoke'' \<and> status_is_valid status
         then (Inr True, log_line ''DEBUG ok(): Received VALID status for invoke, treating as success.'' s)
         else if is_int status \<and> in_codes status expected
         then (if method_type s = ''query'' \<and> py_eq_int status 200
               then ok_test_query200 r s
               else if method_type s = ''invoke'' \<and> py_eq_int status 202
               then (Inr True, log_line ''DEBUG ok(): Invoke HTTP 202 (Accepted).'' s)
               else ok_test_rest r s)
         else ok_test_rest r s)"

subsection \<open>gemtest.py\<close>

text \<open>The part of \<^verbatim>\<open>ok\<close> after the status checks (gemtest.py lines 280 to 289).\<close>

definition ok_gemtest_rest :: "pydict \<Rightarrow> state \<Rightarrow> (exc + bool) \<times> state" where
  "ok_gemtest_rest r s =
     (if is_dict (dict_get r ''details'')
      then (case details_marker (dict_get r ''details'') of
              Inl e \<Rightarrow> (Inl e, s)
            | Inr True \<Rightarrow> (Inr False, log_line ''DEBUG ok(): Chaincode-level error explicitly found in details.'' s)
            | Inr False \<Rightarrow> (Inr False, log_line ''DEBUG ok(): Status not in expected and not VALID for invoke.'' s))
      else (Inr False, log_line ''DEBUG ok(): Status not in expected and not VALID for invoke.'' s))"

text \<open>The branch for a query with status 200 (gemtest.py lines 260 to 274).\<close>

definition ok_gemtest_query200 :: "pydict \<Rightarrow> state \<Rightarrow> (exc + bool) \<times> state" where
  "ok_gemtest_query200 r s =
     (if truthy (dict_get r ''err'')
      then (Inr False, log_line ''DEBUG ok(): Query HTTP 200 but _req indicated an error structure.'' s)
      else if (case dict_get r ''result'' of
                 PStr t \<Rightarrow> is_substring ''Description: '' t \<or> is_substring ''chaincode response'' (str_lower t)
               | _ \<Rightarrow> False)
      then (Inr False, log_line ''DEBUG ok(): Query HTTP 200 but result field contains chaincode error string.'' s)
      else (Inr True, s))"

definition ok_gemtest :: "pydict \<Rightarrow> int list option \<Rightarrow> state \<Rightarrow> (exc + bool) \<times> state" where
  "ok_gemtest r expected_status_codes s =
     (let expected = expected_codes expected_status_codes s;
          status = dict_get r ''status''
      in if method_type s = ''invoke'' \<and> status_is_valid status
         then (Inr True, log_line ''DEBUG ok(): Received VALID status for invoke, treating as success.'' s)
         else if is_int status \<and> in_codes status expected
         then (if method_type s = ''query'' \<and> py_eq_int status 200
               then ok_gemtest_query200 r s
               else if method_type s = ''invoke'' \<and> py_eq_int status 202
               then (Inr True, log_line ''DEBUG ok(): Invoke HTTP 202 (Accepted).'' s)
               else ok_gemtest_rest r s)
         else ok_gemtest_rest r s)"

section \<open>The transport call\<close>

text \<open>
  What the interpreter's library does is a parameter. \<open>json_loads\<close> is \<^verbatim>\<open>json.loads\<close> on
  a text: it returns a value, raises \<^verbatim>\<open>JSONDecodeError\<close>, or raises another exception
  (\<^verbatim>\<open>ValueError\<close> on an integer of more digits than the interpreter converts,
  \<^verbatim>\<open>RecursionError\<close> on deep nesting). \<open>str_exc\<close> is \<^verbatim>\<open>str(exc)\<close>, whose wording belongs to
  the interpreter.
\<close>

datatype loads_result =
    Decoded pyval
  | JSONDecodeError
  | OtherError exc

record pylib =
  json_loads :: "string \<Rightarrow> loads_result"
  str_exc :: "exc \<Rightarrow> string"

text \<open>
  What the network does with one request, as \<^verbatim>\<open>_req\<close> sees it:
  \<^item> \<open>Response code body\<close>: \<^verbatim>\<open>urlopen\<close> returned; \<open>code\<close> is \<^verbatim>\<open>r.getcode()\<close> and \<open>body\<close> the
    text of line 67 (empty when \<^verbatim>\<open>r.length\<close> is 0);
  \<^item> \<open>HTTPError code b\<close>: \<^verbatim>\<open>urlopen\<close> raised \<^verbatim>\<open>HTTPError\<close> with \<open>e.code = code\<close>. Its handler
    reads the error body: \<open>b\<close> is \<open>Body raw\<close> when the read gives the text \<open>raw\<close> (empty
    when there is no \<^verbatim>\<open>e.fp\<close>) and \<open>ReadRaises e\<close> when \<^verbatim>\<open>e.read()\<close> itself raises (the
    connection drops in the middle of the body);
  \<^item> \<open>Failure msg\<close>: any other \<^verbatim>\<open>Exception\<close> was raised inside the \<^verbatim>\<open>with\<close> block, while
    opening the connection or reading the response (connection refused, timeout,
    TLS failure); \<open>msg\<close> is its \<^verbatim>\<open>str()\<close>.
\<close>

datatype error_body =
    Body string
  | ReadRaises exc

datatype transport =
    Response int string
  | HTTPError int error_body
  | Failure string

text \<open>
  \<^verbatim>\<open>_req\<close>. The result is \<open>Inr\<close> of the record it returns, or \<open>Inl\<close> of the exception
  that leaves it. The handler of \<^verbatim>\<open>Exception\<close> covers the \<^verbatim>\<open>with\<close> block only: what is
  raised inside the handler of \<^verbatim>\<open>HTTPError\<close>, other than the \<^verbatim>\<open>JSONDecodeError\<close> caught
  there, goes to the caller.
\<close>

definition req :: "pylib \<Rightarrow> string \<Rightarrow> pyval \<Rightarrow> string \<Rightarrow> transport \<Rightarrow> state \<Rightarrow> (exc + pydict) \<times> state" where
  "req py url payload method t s =
     (let s1 = s\<lparr>requests := requests s @ [(method, url, payload)]\<rparr> in
      case t of
        Response code body \<Rightarrow>
          (let out = [(PStr ''status'', PInt code)] in
           if body \<noteq> []
           then (case json_loads py body of
                   Decoded v \<Rightarrow>
                     (case dict_update out v of
                        Inr out' \<Rightarrow> (Inr out', s1)
                      | Inl e \<Rightarrow>
                          (Inr [(PStr ''err'', PStr (str_exc py e)), (PStr ''status'', PInt 500)], s1))
                 | JSONDecodeError \<Rightarrow> (Inr (dict_set out (PStr ''raw'') (PStr body)), s1)
                 | OtherError e \<Rightarrow>
                     (Inr [(PStr ''err'', PStr (str_exc py e)), (PStr ''status'', PInt 500)], s1))
           else (Inr out, s1))
      | HTTPError code b \<Rightarrow>
          (case b of
             ReadRaises e \<Rightarrow> (Inl e, s1)
           | Body raw \<Rightarrow>
               (if raw \<noteq> [] \<and> \<not> is_substring ''<html'' raw \<and> is_substring ''{'' raw
                then (case json_loads py raw of
                        Decoded v \<Rightarrow>
                          (Inr [(PStr ''err'', PStr (''HTTP '' @ str_int code)), (PStr ''details'', v),
                                (PStr ''status'', PInt code)], s1)
                      | JSONDecodeError \<Rightarrow>
                          (Inr [(PStr ''err'', PStr (''HTTP '' @ str_int code)),
                                (PStr ''details'',
                                 PDict [(PStr ''raw'', PStr raw),
                                        (PStr ''note'', PStr ''Response could not be parsed as JSON.'')]),
                                (PStr ''status'', PInt code)], s1)
                      | OtherError e \<Rightarrow> (Inl e, s1))
                else (Inr [(PStr ''err'', PStr (''HTTP '' @ str_int code)),
                           (PStr ''details'',
                            PDict [(PStr ''raw'', PStr raw),
                                   (PStr ''note'', PStr ''Response not valid JSON or HTML.'')]),
                           (PStr ''status'', PInt code)], s1)))
      | Failure msg \<Rightarrow> (Inr [(PStr ''err'', PStr msg), (PStr ''status'', PInt 500)], s1))"

section \<open>The invocation wrappers\<close>

definition CONNECT_URL :: string where
  "CONNECT_URL = ''https://u0n7pgi2z4-u0lbsjef4v-connect.us0-aws-ws.kaleido.io/transactions''"

definition QUERY_URL :: string where
  "QUERY_URL = ''https://u0n7pgi2z4-u0lbsjef4v-connect.us0-aws-ws.kaleido.io/query''"

definition CHANNEL_NAME :: string where
  "CHANNEL_NAME = ''default-channel''"

definition CHAINCODE_NAME :: string where
  "CHAINCODE_NAME = ''banana''"

text \<open>The roster, in the order the dictionary literal lists it: (kid name, alias, role).\<close>

definition ID_ROSTER :: "(string \<times> string \<times> string) list" where
  "ID_ROSTER =
     [(''admin_main_tester'', ''MainAdminFT'', ''admin''),
      (''farmer_alice_tester'', ''AliceAcres'', ''farmer''),
      (''processor_bob_tester'', ''BobProcessing'', ''processor''),
      (''processor_charlie_tester'', ''CharlieTransform'', ''processor''),
      (''distributor_dave_tester'', ''DaveDistribution'', ''distributor''),
      (''retailer_eve_tester'', ''EveMart'', ''retailer''),
      (''certifier_frank_tester'', ''FrankCertify'', ''certifier''),
      (''auditor_grace_tester'', ''GraceAudits'', ''admin'')]"

fun find_kid :: "(string \<times> string \<times> string) list \<Rightarrow> string \<Rightarrow> string option" where
  "find_kid [] chaincode_alias = None"
| "find_kid ((kid_name, alias, role) # rest) chaincode_alias =
     (if alias = chaincode_alias then Some kid_name else find_kid rest chaincode_alias)"

definition get_kaleido_kid_for_alias :: "string \<Rightarrow> state \<Rightarrow> string option \<times> state" where
  "get_kaleido_kid_for_alias chaincode_alias s =
     (case find_kid ID_ROSTER chaincode_alias of
        Some kid_name \<Rightarrow> (Some kid_name, s)
      | None \<Rightarrow> (None, log_line ''WARNING: Could not find Kaleido kid_name for chaincode_alias in ID_ROSTER.'' s))"

text \<open>\<^verbatim>\<open>if not kaleido_kid_to_sign_with\<close>: \<^verbatim>\<open>None\<close> or the empty string.\<close>

fun no_kid :: "string option \<Rightarrow> bool" where
  "no_kid None = True"
| "no_kid (Some kid) = (kid = [])"

definition alias_not_found :: "string \<Rightarrow> pydict" where
  "alias_not_found chaincode_alias_for_signer =
     [(PStr ''err'', PStr (''Signer alias '' @ chaincode_alias_for_signer @ '' not found in ID_ROSTER'')),
      (PStr ''status'', PInt 0)]"

text \<open>
  The request body. The arguments are taken after their coercion to strings
  (\<^verbatim>\<open>str_args\<close>); \<open>strongread\<close> is present for a transaction only.
\<close>

definition envelope :: "string \<Rightarrow> string \<Rightarrow> string list \<Rightarrow> bool \<Rightarrow> pyval" where
  "envelope signer func str_args strongread =
     PDict ([(PStr ''headers'',
              PDict [(PStr ''signer'', PStr signer), (PStr ''channel'', PStr CHANNEL_NAME),
                     (PStr ''chaincode'', PStr CHAINCODE_NAME)]),
             (PStr ''func'', PStr func),
             (PStr ''args'', PList (map PStr str_args))]
            @ (if strongread then [(PStr ''strongread'', PBool True)] else []))"

text \<open>
  The test of the log line in \<^verbatim>\<open>invoke\<close>: \<^verbatim>\<open>error_message.lower()\<close> comes first, so a
  message that is not a string raises \<^verbatim>\<open>AttributeError\<close>.
\<close>

fun invoke_marker :: "pyval \<Rightarrow> exc + bool" where
  "invoke_marker (PStr t) =
     Inr (is_substring ''chaincode response'' (str_lower t) \<or>
          is_substring ''transaction returned with failure'' (str_lower t) \<or>
          is_substring ''Description: '' t)"
| "invoke_marker v = Inl (NoAttribute v ''lower'')"

fun details_message :: "pyval \<Rightarrow> pyval" where
  "details_message (PDict d) =
     py_or (dict_get_default d ''error'' (PStr [])) (dict_get_default d ''message'' (PStr []))"
| "details_message v = PNone"

fun has_error_or_message :: "pyval \<Rightarrow> bool" where
  "has_error_or_message (PDict d) = (dict_has d ''error'' \<or> dict_has d ''message'')"
| "has_error_or_message v = False"

text \<open>The log line after the request, shared by both versions once the guard is decided.\<close>

definition invoke_log_details :: "pydict \<Rightarrow> state \<Rightarrow> (exc + pydict) \<times> state" where
  "invoke_log_details r s =
     (case invoke_marker (details_message (dict_get r ''details'')) of
        Inl e \<Rightarrow> (Inl e, s)
      | Inr True \<Rightarrow> (Inr r, log_line ''TX -> CHAINCODE ERROR'' s)
      | Inr False \<Rightarrow> (Inr r, log_line ''TX -> KALEIDO RESPONSE'' s))"

text \<open>The log line of \<^verbatim>\<open>invoke\<close> after the request, and its return value (test.py).\<close>

definition invoke_test_log :: "pydict \<Rightarrow> state \<Rightarrow> (exc + pydict) \<times> state" where
  "invoke_test_log r s2 =
     (let status = dict_get r ''status''
      in if truthy (dict_get r ''details'') \<and> is_dict (dict_get r ''details'') \<and>
            has_error_or_message (dict_get r ''details'')
         then invoke_log_details r s2
         else if \<not> (py_eq_int status 202 \<or> status = PStr ''VALID'' \<or> status = PStr ''valid'')
         then (Inr r, if \<not> status_is_valid status then log_line ''TX -> UNEXPECTED HTTP Status'' s2 else s2)
         else (Inr r, log_line ''TX -> Sent/Committed'' s2))"

definition invoke_test :: "pylib \<Rightarrow> string \<Rightarrow> string \<Rightarrow> string list \<Rightarrow> transport \<Rightarrow> state \<Rightarrow> (exc + pydict) \<times> state" where
  "invoke_test py chaincode_alias_for_signer func str_args t s =
     (let (kaleido_kid_to_sign_with, s1) =
            get_kaleido_kid_for_alias chaincode_alias_for_signer (s\<lparr>method_type := ''invoke''\<rparr>)
      in if no_kid kaleido_kid_to_sign_with
         then (Inr (alias_not_found chaincode_alias_for_signer),
               log_line ''CRITICAL ERROR: Could not find Kaleido kid_name for chaincode_alias_for_signer in ID_ROSTER for invoke.'' s1)
         else
           (case req py CONNECT_URL (envelope (the kaleido_kid_to_sign_with) func str_args True) ''POST'' t s1 of
              (Inl e, s2) \<Rightarrow> (Inl e, s2)
            | (Inr r, s2) \<Rightarrow> invoke_test_log r s2))"

text \<open>The same for gemtest.py.\<close>

definition invoke_gemtest_log :: "pydict \<Rightarrow> state \<Rightarrow> (exc + pydict) \<times> state" where
  "invoke_gemtest_log r s2 =
     (let status = dict_get r ''status''
      in if is_dict (dict_get r ''details'') \<and> has_error_or_message (dict_get r ''details'')
         then invoke_log_details r s2
         else if \<not> status_is_valid status \<and> \<not> py_eq_int status 202
         then (Inr r, log_line ''TX -> UNEXPECTED HTTP Status'' s2)
         else (Inr r, log_line ''TX -> Sent/Committed'' s2))"

definition invoke_gemtest :: "pylib \<Rightarrow> string \<Rightarrow> string \<Rightarrow> string list \<Rightarrow> transport \<Rightarrow> state \<Rightarrow> (exc + pydict) \<times> state" where
  "invoke_gemtest py chaincode_alias_for_signer func str_args t s =
     (let (kaleido_kid_to_sign_with, s1) =
            get_kaleido_kid_for_alias chaincode_alias_for_signer (s\<lparr>method_type := ''invoke''\<rparr>)
      in if no_kid kaleido_kid_to_sign_with
         then (Inr (alias_not_found chaincode_alias_for_signer),
               log_line ''CRITICAL ERROR: Could not find Kaleido kid_name for chaincode_alias_for_signer in ID_ROSTER for invoke.'' s1)
         else
           (case req py CONNECT_URL (envelope (the kaleido_kid_to_sign_with) func str_args True) ''POST'' t s1 of
              (Inl e, s2) \<Rightarrow> (Inl e, s2)
            | (Inr r, s2) \<Rightarrow> invoke_gemtest_log r s2))"

text \<open>
  The unwrapping of \<^verbatim>\<open>query\<close>: \<open>processed_result\<close> for a record with status 200, with the
  log lines it writes on the way. A string that \<^verbatim>\<open>json.loads\<close> raises on, whatever the
  exception, is returned raw.
\<close>

definition unwrap_result :: "pylib \<Rightarrow> pydict \<Rightarrow> state \<Rightarrow> pyval \<times> state" where
  "unwrap_result py r s =
     (case dict_get r ''result'' of
        PNone \<Rightarrow> (PNone, s)
      | PStr t \<Rightarrow>
          (if str_strip t = [] then (PNone, s)
           else (case json_loads py t of
                   Decoded v \<Rightarrow> (v, s)
                 | JSONDecodeError \<Rightarrow> (PStr t, log_line ''Warning: Could not JSON parse query result.'' s)
                 | OtherError e \<Rightarrow> (PStr t, log_line ''Warning: Could not JSON parse query result.'' s)))
      | v \<Rightarrow> (v, s))"

text \<open>What \<^verbatim>\<open>query\<close> does with the record of the transport call (test.py lines 210 to 236).\<close>

definition query_test_return :: "pylib \<Rightarrow> pydict \<Rightarrow> state \<Rightarrow> pyval \<times> state" where
  "query_test_return py r s2 =
     (let (processed_result, s3) =
            (if py_eq_int (dict_get r ''status'') 200 then unwrap_result py r s2 else (PNone, s2));
          s4 = log_line ''Q'' s3
      in (if py_eq_int (dict_get r ''status'') 200 \<and> processed_result \<noteq> PNone
          then processed_result else PDict r, s4))"

definition query_test :: "pylib \<Rightarrow> string \<Rightarrow> string \<Rightarrow> string list \<Rightarrow> transport \<Rightarrow> state \<Rightarrow> (exc + pyval) \<times> state" where
  "query_test py chaincode_alias_for_signer func str_args t s =
     (let (kaleido_kid_to_sign_with, s1) =
            get_kaleido_kid_for_alias chaincode_alias_for_signer (s\<lparr>method_type := ''query''\<rparr>)
      in if no_kid kaleido_kid_to_sign_with
         then (Inr (PDict (alias_not_found chaincode_alias_for_signer)),
               log_line ''CRITICAL ERROR: Could not find Kaleido kid_name for chaincode_alias_for_signer in ID_ROSTER for query.'' s1)
         else
           (case req py QUERY_URL (envelope (the kaleido_kid_to_sign_with) func str_args False) ''POST'' t s1 of
              (Inl e, s2) \<Rightarrow> (Inl e, s2)
            | (Inr r, s2) \<Rightarrow> (case query_test_return py r s2 of (v, s4) \<Rightarrow> (Inr v, s4))))"

text \<open>The same for gemtest.py (lines 206 to 242).\<close>

definition query_gemtest_return :: "pylib \<Rightarrow> pydict \<Rightarrow> state \<Rightarrow> pyval \<times> state" where
  "query_gemtest_return py r s2 =
     (let (processed_result, s3) =
            (if py_eq_int (dict_get r ''status'') 200
             then (if dict_has r ''result'' \<and> dict_get r ''result'' \<noteq> PNone
                   then unwrap_result py r s2 else (PNone, s2))
             else (PNone, s2));
          s4 = log_line ''Q'' s3
      in (if py_eq_int (dict_get r ''status'') 200 \<and> processed_result \<noteq> PNone
          then processed_result else PDict r, s4))"

definition query_gemtest :: "pylib \<Rightarrow> string \<Rightarrow> string \<Rightarrow> string list \<Rightarrow> transport \<Rightarrow> state \<Rightarrow> (exc + pyval) \<times> state" where
  "query_gemtest py chaincode_alias_for_signer func str_args t s =
     (let (kaleido_kid_to_sign_with, s1) =
            get_kaleido_kid_for_alias chaincode_alias_for_signer (s\<lparr>method_type := ''query''\<rparr>)
      in if no_kid kaleido_kid_to_sign_with
         then (Inr (PDict (alias_not_found chaincode_alias_for_signer)),
               log_line ''CRITICAL ERROR: Could not find Kaleido kid_name for chaincode_alias_for_signer in ID_ROSTER for query.'' s1)
         else
           (case req py QUERY_URL (envelope (the kaleido_kid_to_sign_with) func str_args False) ''POST'' t s1 of
              (Inl e, s2) \<Rightarrow> (Inl e, s2)
            | (Inr r, s2) \<Rightarrow> (case query_gemtest_return py r s2 of (v, s4) \<Rightarrow> (Inr v, s4))))"

section \<open>Facts about the built-in operations\<close>

lemma upper_lower_char: "upper_char (lower_char c) = upper_char c"
  unfolding upper_char_def lower_char_def
  by (simp split: if_splits)

lemma str_upper_lower: "str_upper (str_lower t) = str_upper t"
  by (simp add: str_upper_def str_lower_def upper_lower_char)

lemma upper_of_valid:
  assumes "str_lower t = str_lower ''VALID''"
  shows "str_upper t = ''VALID''"
proof -
  from assms have "str_upper (str_lower t) = str_upper (str_lower ''VALID'')"
    by simp
  then have "str_upper t = str_upper ''VALID''"
    by (simp only: str_upper_lower)
  then show ?thesis
    by (simp add: str_upper_def upper_char_def)
qed

text \<open>The substring test is containment of a contiguous block.\<close>

lemma is_substring_sublist: "is_substring sub t \<longleftrightarrow> sublist sub t"
proof (induction t)
  case Nil
  then show ?case by simp
next
  case (Cons c cs)
  then show ?case
    by (cases sub) (simp_all add: sublist_Cons_right)
qed

lemma is_substring_iff: "is_substring sub t \<longleftrightarrow> (\<exists>p q. t = p @ sub @ q)"
  by (simp add: is_substring_sublist sublist_def)

lemma method_type_log_line [simp]: "method_type (log_line msg s) = method_type s"
  by (simp add: log_line_def)

lemma requests_log_line [simp]: "requests (log_line msg s) = requests s"
  by (simp add: log_line_def)

section \<open>The classifier on a committed transaction\<close>

text \<open>
  C1. In invoke mode, a record whose status is a string that equals \<open>VALID\<close> up to
  letter case is classified PASS by both versions of the classifier, whatever the
  override of the expected status codes is (none, empty, or codes that match nothing).
\<close>

theorem ok_valid_status_passes:
  assumes "method_type s = ''invoke''"
    and "dict_get r ''status'' = PStr t"
    and "str_lower t = str_lower ''VALID''"
  shows "fst (ok_test r expected_status_codes s) = Inr True \<and>
         fst (ok_gemtest r expected_status_codes s) = Inr True"
  using assms(1,2) upper_of_valid [OF assms(3)]
  by (simp add: ok_test_def ok_gemtest_def status_is_valid_def Let_def)

theorem ok_valid_status_passes_witness:
  "fst (ok_test [(PStr ''status'', PStr ''Valid'')] (Some [500])
          \<lparr>method_type = ''invoke'', log_lines = [], requests = []\<rparr>) = Inr True \<and>
   fst (ok_gemtest [(PStr ''status'', PStr ''Valid'')] (Some [500])
          \<lparr>method_type = ''invoke'', log_lines = [], requests = []\<rparr>) = Inr True"
  using ok_valid_status_passes
    [of "\<lparr>method_type = ''invoke'', log_lines = [], requests = []\<rparr>"
        "[(PStr ''status'', PStr ''Valid'')]" "''Valid''" "Some [500]"]
  by (simp add: dict_get_def dict_get_default_def str_lower_def lower_char_def)

section \<open>The classifier on an accepted transaction\<close>

lemma ok_test_rest_not_pass: "fst (ok_test_rest r s) \<noteq> Inr True"
  by (simp add: ok_test_rest_def Let_def split: sum.splits bool.splits)

lemma ok_gemtest_rest_not_pass: "fst (ok_gemtest_rest r s) \<noteq> Inr True"
  by (simp add: ok_gemtest_rest_def split: sum.splits bool.splits)

text \<open>
  C2, as the code has it. In invoke mode, a record with integer status 202 is
  classified PASS exactly when 202 is among the expected codes, which it is by
  default. The \<open>details\<close> object is not looked at on this path: an error marker in
  it changes nothing.
\<close>

theorem ok_accepted_passes:
  assumes "method_type s = ''invoke''"
    and "dict_get r ''status'' = PInt 202"
  shows "(fst (ok_test r expected_status_codes s) = Inr True \<longleftrightarrow>
            202 \<in> set (expected_codes expected_status_codes s)) \<and>
         (fst (ok_gemtest r expected_status_codes s) = Inr True \<longleftrightarrow>
            202 \<in> set (expected_codes expected_status_codes s)) \<and>
         expected_codes None s = [202]"
  using assms
  by (simp add: ok_test_def ok_gemtest_def status_is_valid_def Let_def expected_codes_def
        ok_test_rest_not_pass ok_gemtest_rest_not_pass)

theorem ok_accepted_passes_witness:
  "fst (ok_test [(PStr ''status'', PInt 202)] (Some [200, 202])
          \<lparr>method_type = ''invoke'', log_lines = [], requests = []\<rparr>) = Inr True \<and>
   fst (ok_gemtest [(PStr ''status'', PInt 202)] (Some [200, 202])
          \<lparr>method_type = ''invoke'', log_lines = [], requests = []\<rparr>) = Inr True"
  using ok_accepted_passes
    [of "\<lparr>method_type = ''invoke'', log_lines = [], requests = []\<rparr>"
        "[(PStr ''status'', PInt 202)]" "Some [200, 202]"]
  by (simp add: dict_get_def dict_get_default_def expected_codes_def)

text \<open>
  C2 as stated fails: the record
  \<^verbatim>\<open>{"status": 202, "details": {"error": "Description: boom"}}\<close> carries the marker, and
  both versions classify it PASS in invoke mode with the default codes.
\<close>

theorem ok_accepted_marker_counterexample:
  "details_marker (PDict [(PStr ''error'', PStr ''Description: boom'')]) = Inr True \<and>
   fst (ok_test [(PStr ''status'', PInt 202),
                 (PStr ''details'', PDict [(PStr ''error'', PStr ''Description: boom'')])] None
          \<lparr>method_type = ''invoke'', log_lines = [], requests = []\<rparr>) = Inr True \<and>
   fst (ok_gemtest [(PStr ''status'', PInt 202),
                    (PStr ''details'', PDict [(PStr ''error'', PStr ''Description: boom'')])] None
          \<lparr>method_type = ''invoke'', log_lines = [], requests = []\<rparr>) = Inr True"
  by (simp add: ok_test_def ok_gemtest_def status_is_valid_def Let_def expected_codes_def
        dict_get_def dict_get_default_def has_marker_def py_or_def)

section \<open>The classifier on a query answered with 200\<close>

text \<open>
  C3, as the code has it. In query mode, for a record with integer status 200 that
  is among the expected codes:
  \<^item> test.py returns FAIL when \<open>details\<close> is a non-empty dictionary whose message (its
    \<open>error\<close> field, or its \<open>message\<close> field when \<open>error\<close> is absent or empty) is a string
    that contains \<open>Description: \<close> or, in lower case, \<open>chaincode response\<close>;
  \<^item> gemtest.py returns FAIL when \<open>result\<close> is a string that contains one of these
    two markers.
\<close>

theorem ok_query_marker_fails:
  assumes "method_type s = ''query''"
    and "dict_get r ''status'' = PInt 200"
    and "200 \<in> set (expected_codes expected_status_codes s)"
  shows "(\<forall>d m. dict_get r ''details'' = PDict d \<and> d \<noteq> [] \<and> details_message (PDict d) = PStr m \<and>
            (is_substring ''Description: '' m \<or> is_substring ''chaincode response'' (str_lower m))
            \<longrightarrow> fst (ok_test r expected_status_codes s) = Inr False) \<and>
         (\<forall>t. dict_get r ''result'' = PStr t \<and>
            (is_substring ''Description: '' t \<or> is_substring ''chaincode response'' (str_lower t))
            \<longrightarrow> fst (ok_gemtest r expected_status_codes s) = Inr False)"
  using assms
  by (auto simp add: ok_test_def ok_gemtest_def status_is_valid_def Let_def
        ok_test_query200_def ok_gemtest_query200_def has_marker_def
      split: sum.splits bool.splits)

theorem ok_query_marker_fails_witness:
  "fst (ok_test [(PStr ''status'', PInt 200),
                 (PStr ''details'', PDict [(PStr ''message'', PStr ''Chaincode Response: 500'')])] None
          \<lparr>method_type = ''query'', log_lines = [], requests = []\<rparr>) = Inr False \<and>
   fst (ok_gemtest [(PStr ''status'', PInt 200), (PStr ''result'', PStr ''Description: boom'')] None
          \<lparr>method_type = ''query'', log_lines = [], requests = []\<rparr>) = Inr False"
  using ok_query_marker_fails
    [of "\<lparr>method_type = ''query'', log_lines = [], requests = []\<rparr>"
        "[(PStr ''status'', PInt 200),
          (PStr ''details'', PDict [(PStr ''message'', PStr ''Chaincode Response: 500'')])]" None]
    ok_query_marker_fails
    [of "\<lparr>method_type = ''query'', log_lines = [], requests = []\<rparr>"
        "[(PStr ''status'', PInt 200), (PStr ''result'', PStr ''Description: boom'')]" None]
  by (simp add: dict_get_def dict_get_default_def expected_codes_def py_or_def
        str_lower_def lower_char_def)

text \<open>
  C3 as stated fails in both versions. test.py does not know the marker
  \<open>transaction returned with failure\<close>; gemtest.py does not read \<open>details\<close> on this
  path. Both records below are classified PASS in query mode.
\<close>

theorem ok_query_marker_counterexample:
  "fst (ok_test [(PStr ''status'', PInt 200),
                 (PStr ''details'', PDict [(PStr ''error'', PStr ''transaction returned with failure'')])] None
          \<lparr>method_type = ''query'', log_lines = [], requests = []\<rparr>) = Inr True \<and>
   fst (ok_gemtest [(PStr ''status'', PInt 200),
                    (PStr ''details'', PDict [(PStr ''error'', PStr ''Description: boom'')])] None
          \<lparr>method_type = ''query'', log_lines = [], requests = []\<rparr>) = Inr True"
  by (simp add: ok_test_def ok_gemtest_def status_is_valid_def Let_def expected_codes_def
        ok_test_query200_def ok_gemtest_query200_def dict_get_def dict_get_default_def
        has_marker_def py_or_def dict_has_def str_lower_def lower_char_def)

section \<open>The classifier as a function of record and mode\<close>

lemma ok_test_rest_mode: "fst (ok_test_rest r s1) = fst (ok_test_rest r s2)"
  by (simp add: ok_test_rest_def Let_def split: sum.splits bool.splits)

lemma ok_test_query200_mode: "fst (ok_test_query200 r s1) = fst (ok_test_query200 r s2)"
  by (simp add: ok_test_query200_def Let_def split: sum.splits bool.splits)

lemma ok_gemtest_rest_mode: "fst (ok_gemtest_rest r s1) = fst (ok_gemtest_rest r s2)"
  by (simp add: ok_gemtest_rest_def split: sum.splits bool.splits)

lemma ok_gemtest_query200_mode: "fst (ok_gemtest_query200 r s1) = fst (ok_gemtest_query200 r s2)"
  by (simp add: ok_gemtest_query200_def)

lemma ok_test_mode:
  assumes "method_type s1 = method_type s2"
  shows "fst (ok_test r e s1) = fst (ok_test r e s2)"
  using assms unfolding ok_test_def expected_codes_def Let_def
  by (auto intro: ok_test_rest_mode ok_test_query200_mode)

lemma ok_gemtest_mode:
  assumes "method_type s1 = method_type s2"
  shows "fst (ok_gemtest r e s1) = fst (ok_gemtest r e s2)"
  using assms unfolding ok_gemtest_def expected_codes_def Let_def
  by (auto intro: ok_gemtest_rest_mode ok_gemtest_query200_mode)

lemma ok_test_keeps_mode: "method_type (snd (ok_test r e s)) = method_type s"
  by (simp add: ok_test_def ok_test_rest_def ok_test_query200_def Let_def
      split: sum.splits bool.splits)

lemma ok_gemtest_keeps_mode: "method_type (snd (ok_gemtest r e s)) = method_type s"
  by (simp add: ok_gemtest_def ok_gemtest_rest_def ok_gemtest_query200_def Let_def
      split: sum.splits bool.splits)

text \<open>
  C9. A second call of the classifier on the same record, in the state the first
  call left, gives the verdict of the first (a boolean, or the same exception). The
  classifier leaves the mode as it found it, and its verdict does not depend on the
  log or on the requests made so far: it is a function of the record, the expected
  codes and the mode.
\<close>

theorem ok_same_verdict_twice:
  "fst (ok_test r e (snd (ok_test r e s))) = fst (ok_test r e s) \<and>
   fst (ok_gemtest r e (snd (ok_gemtest r e s))) = fst (ok_gemtest r e s) \<and>
   method_type (snd (ok_test r e s)) = method_type s \<and>
   method_type (snd (ok_gemtest r e s)) = method_type s \<and>
   fst (ok_test r e (s\<lparr>log_lines := l, requests := q\<rparr>)) = fst (ok_test r e s) \<and>
   fst (ok_gemtest r e (s\<lparr>log_lines := l, requests := q\<rparr>)) = fst (ok_gemtest r e s)"
proof -
  have "fst (ok_test r e (snd (ok_test r e s))) = fst (ok_test r e s)"
    by (rule ok_test_mode) (rule ok_test_keeps_mode)
  moreover have "fst (ok_gemtest r e (snd (ok_gemtest r e s))) = fst (ok_gemtest r e s)"
    by (rule ok_gemtest_mode) (rule ok_gemtest_keeps_mode)
  moreover have "fst (ok_test r e (s\<lparr>log_lines := l, requests := q\<rparr>)) = fst (ok_test r e s)"
    by (rule ok_test_mode) simp
  moreover have "fst (ok_gemtest r e (s\<lparr>log_lines := l, requests := q\<rparr>)) = fst (ok_gemtest r e s)"
    by (rule ok_gemtest_mode) simp
  ultimately show ?thesis
    by (simp add: ok_test_keeps_mode ok_gemtest_keeps_mode)
qed

section \<open>Facts about dictionaries\<close>

lemma key_eq_PStr_right [simp]: "key_eq k (PStr x) \<longleftrightarrow> k = PStr x"
  by (cases k) (auto simp: key_eq_def)

lemma key_eq_PStr_left [simp]: "key_eq (PStr x) k \<longleftrightarrow> k = PStr x"
  by (cases k) (auto simp: key_eq_def)

lemma map_of_dict_set:
  "map_of (dict_set d k v) (PStr x) = (if k = PStr x then Some v else map_of d (PStr x))"
  by (induction d) auto

text \<open>Merging a dictionary: of two bindings of a key the later one wins.\<close>

lemma map_of_fold_dict_set:
  "map_of (fold (\<lambda>(k, v) acc. dict_set acc k v) kvs d) (PStr x) =
     (case map_of (rev kvs) (PStr x) of Some v \<Rightarrow> Some v | None \<Rightarrow> map_of d (PStr x))"
proof (induction kvs arbitrary: d)
  case Nil
  then show ?case by simp
next
  case (Cons a kvs)
  obtain k v where a: "a = (k, v)" by (cases a)
  show ?case
    by (auto simp add: a Cons.IH map_of_dict_set map_add_def split: option.splits)
qed

lemma pair_of_index: "pair_of i x = Inr p \<Longrightarrow> pair_of j x = Inr p"
  by (cases "(i, x)" rule: pair_of.cases) auto

lemma pair_of_is_pair:
  "is_pair x \<longleftrightarrow> (\<exists>k v. pair_of i x = Inr (k, v) \<and> hashable k)"
proof
  assume "is_pair x"
  then obtain k v where "pair_of 0 x = Inr (k, v)" "hashable k"
    by (auto simp: is_pair_def split: sum.splits)
  then show "\<exists>k v. pair_of i x = Inr (k, v) \<and> hashable k"
    using pair_of_index by blast
next
  assume "\<exists>k v. pair_of i x = Inr (k, v) \<and> hashable k"
  then obtain k v where kv: "pair_of i x = Inr (k, v)" "hashable k"
    by blast
  then have "pair_of 0 x = Inr (k, v)"
    using pair_of_index by blast
  with kv(2) show "is_pair x"
    by (simp add: is_pair_def)
qed

lemma update_seq_raises:
  "(\<exists>e. update_seq d i xs = Inl e) \<longleftrightarrow> list_ex (\<lambda>x. \<not> is_pair x) xs"
proof (induction xs arbitrary: d i)
  case Nil
  then show ?case by simp
next
  case (Cons x xs)
  show ?case
  proof (cases "is_pair x")
    case True
    then obtain k v where "pair_of i x = Inr (k, v)" "hashable k"
      using pair_of_is_pair by blast
    with True Cons.IH show ?thesis by simp
  next
    case False
    then have "\<forall>k v. pair_of i x = Inr (k, v) \<longrightarrow> \<not> hashable k"
      using pair_of_is_pair by blast
    with False show ?thesis by (auto split: sum.splits)
  qed
qed

lemma char_not_pair: "\<not> is_pair (PStr [c])"
  by (simp add: is_pair_def)

lemma dict_update_raises:
  "(\<exists>e. dict_update d v = Inl e) \<longleftrightarrow> update_raises v"
proof (cases v)
  case (PStr t)
  have "list_ex (\<lambda>x. \<not> is_pair x) (map (\<lambda>c. PStr [c]) t) \<longleftrightarrow> t \<noteq> []"
    by (cases t) (simp_all add: char_not_pair)
  with PStr show ?thesis by (simp add: update_seq_raises)
qed (simp_all add: update_seq_raises)

lemma not_Inl_Inr: "(\<nexists>e. x = Inl e) \<Longrightarrow> \<exists>y. x = Inr y"
  by (cases x) auto

section \<open>The transport call on a failure\<close>

text \<open>
  An exception raised inside the \<^verbatim>\<open>with\<close> block becomes the record with \<open>err\<close> and
  \<open>status\<close> 500. An exception raised inside the handler of \<^verbatim>\<open>HTTPError\<close> leaves the call:
  a read of the error body that fails, and \<^verbatim>\<open>json.loads\<close> raising anything but
  \<^verbatim>\<open>JSONDecodeError\<close> on the error body.
\<close>

lemma req_failure_record:
  "fst (req py url payload method (Failure msg) s) =
     Inr [(PStr ''err'', PStr msg), (PStr ''status'', PInt 500)]"
  by (simp add: req_def Let_def)

lemma req_read_failure_escapes:
  "fst (req py url payload method (HTTPError code (ReadRaises e)) s) = Inl e"
  by (simp add: req_def Let_def)

lemma req_error_body_loads_escapes:
  assumes "raw \<noteq> []" and "\<not> is_substring ''<html'' raw" and "is_substring ''{'' raw"
    and "json_loads py raw = OtherError e"
  shows "fst (req py url payload method (HTTPError code (Body raw)) s) = Inl e"
  using assms by (simp add: req_def Let_def)

text \<open>
  C5 on the code. The same transport failure, a connection that drops in the middle
  of a body, is turned into the record with status 500 when the body is that of a
  response read inside the \<^verbatim>\<open>with\<close> block, and leaves the transport call as an
  exception when the body is that of an HTTP error response, read at line 76 inside
  the handler of \<^verbatim>\<open>HTTPError\<close>.
\<close>

theorem req_error_body_read_failure:
  "fst (req \<lparr>json_loads = (\<lambda>b. JSONDecodeError), str_exc = (\<lambda>e. ''error'')\<rparr>
          CONNECT_URL PNone ''POST'' (Failure ''IncompleteRead(12 bytes read, 30 more expected)'')
          \<lparr>method_type = ''invoke'', log_lines = [], requests = []\<rparr>)
     = Inr [(PStr ''err'', PStr ''IncompleteRead(12 bytes read, 30 more expected)''),
            (PStr ''status'', PInt 500)] \<and>
   fst (req \<lparr>json_loads = (\<lambda>b. JSONDecodeError), str_exc = (\<lambda>e. ''error'')\<rparr>
          CONNECT_URL PNone ''POST'' (HTTPError 500 (ReadRaises (LibraryError ''IncompleteRead'')))
          \<lparr>method_type = ''invoke'', log_lines = [], requests = []\<rparr>)
     = Inl (LibraryError ''IncompleteRead'')"
  by (simp add: req_def Let_def)

section \<open>The transport call on an HTTP error\<close>

text \<open>
  C6, as the code has it. On an HTTP error response whose body was read:
  \<^item> when the body contains an opening brace and no \<open><html\<close>, and \<^verbatim>\<open>json.loads\<close> returns
    a value for it, the call returns the record with \<open>HTTP <code>\<close> under \<open>err\<close>, that
    value under \<open>details\<close> and the code under \<open>status\<close>;
  \<^item> when the body has no brace (the empty body included), or contains \<open><html\<close>, or
    \<^verbatim>\<open>json.loads\<close> raises \<^verbatim>\<open>JSONDecodeError\<close> on it, the call returns the record with the
    dictionary of the raw text and a note under \<open>details\<close>.
\<close>

theorem req_http_error_details:
  "(json_loads py raw = Decoded v \<and> is_substring ''{'' raw \<and> \<not> is_substring ''<html'' raw \<longrightarrow>
      fst (req py url payload method (HTTPError code (Body raw)) s) =
        Inr [(PStr ''err'', PStr (''HTTP '' @ str_int code)), (PStr ''details'', v),
             (PStr ''status'', PInt code)]) \<and>
   (json_loads py raw = JSONDecodeError \<or> \<not> is_substring ''{'' raw \<or> is_substring ''<html'' raw \<longrightarrow>
      (\<exists>note. fst (req py url payload method (HTTPError code (Body raw)) s) =
        Inr [(PStr ''err'', PStr (''HTTP '' @ str_int code)),
             (PStr ''details'', PDict [(PStr ''raw'', PStr raw), (PStr ''note'', PStr note)]),
             (PStr ''status'', PInt code)]))"
  by (auto simp: req_def Let_def)

theorem req_http_error_details_witness:
  \<open>fst (req \<lparr>json_loads = (\<lambda>b. if b = ''{"error": "no such channel"}''
                               then Decoded (PDict [(PStr ''error'', PStr ''no such channel'')])
                               else JSONDecodeError),
             str_exc = (\<lambda>e. ''error'')\<rparr>
          CONNECT_URL PNone ''POST'' (HTTPError 404 (Body ''{"error": "no such channel"}''))
          \<lparr>method_type = ''invoke'', log_lines = [], requests = []\<rparr>)
     = Inr [(PStr ''err'', PStr ''HTTP 404''),
            (PStr ''details'', PDict [(PStr ''error'', PStr ''no such channel'')]),
            (PStr ''status'', PInt 404)] \<and>
   (\<exists>note. fst (req \<lparr>json_loads = (\<lambda>b. JSONDecodeError), str_exc = (\<lambda>e. ''error'')\<rparr>
          CONNECT_URL PNone ''POST'' (HTTPError 502 (Body ''<html><body>Bad Gateway</body></html>''))
          \<lparr>method_type = ''invoke'', log_lines = [], requests = []\<rparr>)
     = Inr [(PStr ''err'', PStr ''HTTP 502''),
            (PStr ''details'', PDict [(PStr ''raw'', PStr ''<html><body>Bad Gateway</body></html>''),
                                      (PStr ''note'', PStr note)]),
            (PStr ''status'', PInt 502)])\<close>
  using req_http_error_details
    [of \<open>\<lparr>json_loads = (\<lambda>b. if b = ''{"error": "no such channel"}''
                               then Decoded (PDict [(PStr ''error'', PStr ''no such channel'')])
                               else JSONDecodeError),
          str_exc = (\<lambda>e. ''error'')\<rparr>\<close>
        \<open>''{"error": "no such channel"}''\<close> \<open>PDict [(PStr ''error'', PStr ''no such channel'')]\<close>
        CONNECT_URL PNone \<open>''POST''\<close> 404
        \<open>\<lparr>method_type = ''invoke'', log_lines = [], requests = []\<rparr>\<close>]
    req_http_error_details
    [of \<open>\<lparr>json_loads = (\<lambda>b. JSONDecodeError), str_exc = (\<lambda>e. ''error'')\<rparr>\<close>
        \<open>''<html><body>Bad Gateway</body></html>''\<close> PNone
        CONNECT_URL PNone \<open>''POST''\<close> 502
        \<open>\<lparr>method_type = ''invoke'', log_lines = [], requests = []\<rparr>\<close>]
  by (simp add: str_int_def str_nat.simps digit_char_def)

text \<open>
  C6 as stated fails: a JSON document without a brace (the array \<^verbatim>\<open>[1, 2]\<close>) and a
  JSON object whose text contains \<^verbatim>\<open><html\<close> are not parsed; \<open>details\<close> holds the raw
  text and the note.
\<close>

theorem req_http_error_details_counterexample:
  \<open>fst (req \<lparr>json_loads = (\<lambda>b. if b = ''[1, 2]'' then Decoded (PList [PInt 1, PInt 2])
                               else JSONDecodeError),
             str_exc = (\<lambda>e. ''error'')\<rparr>
          CONNECT_URL PNone ''POST'' (HTTPError 500 (Body ''[1, 2]''))
          \<lparr>method_type = ''invoke'', log_lines = [], requests = []\<rparr>)
     = Inr [(PStr ''err'', PStr ''HTTP 500''),
            (PStr ''details'', PDict [(PStr ''raw'', PStr ''[1, 2]''),
                                      (PStr ''note'', PStr ''Response not valid JSON or HTML.'')]),
            (PStr ''status'', PInt 500)] \<and>
   fst (req \<lparr>json_loads = (\<lambda>b. if b = ''{"error": "<html>"}''
                               then Decoded (PDict [(PStr ''error'', PStr ''<html>'')])
                               else JSONDecodeError),
             str_exc = (\<lambda>e. ''error'')\<rparr>
          CONNECT_URL PNone ''POST'' (HTTPError 500 (Body ''{"error": "<html>"}''))
          \<lparr>method_type = ''invoke'', log_lines = [], requests = []\<rparr>)
     = Inr [(PStr ''err'', PStr ''HTTP 500''),
            (PStr ''details'', PDict [(PStr ''raw'', PStr ''{"error": "<html>"}''),
                                      (PStr ''note'', PStr ''Response not valid JSON or HTML.'')]),
            (PStr ''status'', PInt 500)]\<close>
  by (simp add: req_def Let_def str_int_def str_nat.simps digit_char_def)

section \<open>The transport call on a success\<close>

lemma req_success_loads_error:
  assumes "body \<noteq> []" and "json_loads py body = OtherError e"
  shows "fst (req py url payload method (Response code body) s) =
           Inr [(PStr ''err'', PStr (str_exc py e)), (PStr ''status'', PInt 500)]"
  using assms by (simp add: req_def Let_def)

text \<open>
  C7, as the code has it. On an HTTP success:
  \<^item> with an empty body the record is the response code under \<open>status\<close>;
  \<^item> with a body on which \<^verbatim>\<open>json.loads\<close> raises \<^verbatim>\<open>JSONDecodeError\<close>, the record has the
    response code under \<open>status\<close> and the body under \<open>raw\<close>;
  \<^item> with a body that decodes to an object, every field of the object is in the
    record with its value, the fields of the record are no others than these and
    \<open>status\<close>, and \<open>status\<close> is the response code when the object has no field of
    that name. A \<open>status\<close> field of the body takes the place of the response code.
\<close>

theorem req_success_record:
  "fst (req py url payload method (Response code []) s) = Inr [(PStr ''status'', PInt code)] \<and>
   (body \<noteq> [] \<and> json_loads py body = JSONDecodeError \<longrightarrow>
      fst (req py url payload method (Response code body) s) =
        Inr [(PStr ''status'', PInt code), (PStr ''raw'', PStr body)]) \<and>
   (body \<noteq> [] \<and> json_loads py body = Decoded (PDict kvs) \<longrightarrow>
      (\<exists>r. fst (req py url payload method (Response code body) s) = Inr r \<and>
           (\<forall>k. dict_get r k =
                  dict_get_default (rev kvs) k (if k = ''status'' then PInt code else PNone)) \<and>
           (\<not> dict_has kvs ''status'' \<longrightarrow> dict_get r ''status'' = PInt code)))"
proof -
  have rev_none: "map_of (rev kvs) (PStr ''status'') = None" if "\<not> dict_has kvs ''status''"
    using that by (simp add: dict_has_def map_of_eq_None_iff)
  show ?thesis
    by (auto simp: req_def Let_def dict_get_def dict_get_default_def map_of_fold_dict_set rev_none
        split: option.splits)
qed

theorem req_success_record_witness:
  \<open>fst (req \<lparr>json_loads = (\<lambda>b. if b = ''{"id": "tx1"}''
                               then Decoded (PDict [(PStr ''id'', PStr ''tx1'')]) else JSONDecodeError),
             str_exc = (\<lambda>e. ''error'')\<rparr>
          CONNECT_URL PNone ''POST'' (Response 202 ''accepted'') \<lparr>method_type = ''invoke'', log_lines = [], requests = []\<rparr>)
     = Inr [(PStr ''status'', PInt 202), (PStr ''raw'', PStr ''accepted'')] \<and>
   (\<exists>r. fst (req \<lparr>json_loads = (\<lambda>b. if b = ''{"id": "tx1"}''
                               then Decoded (PDict [(PStr ''id'', PStr ''tx1'')]) else JSONDecodeError),
             str_exc = (\<lambda>e. ''error'')\<rparr>
          CONNECT_URL PNone ''POST'' (Response 202 ''{"id": "tx1"}'') \<lparr>method_type = ''invoke'', log_lines = [], requests = []\<rparr>) = Inr r \<and>
        dict_get r ''id'' = PStr ''tx1'' \<and> dict_get r ''status'' = PInt 202)\<close>
  using req_success_record
    [of \<open>\<lparr>json_loads = (\<lambda>b. if b = ''{"id": "tx1"}''
                               then Decoded (PDict [(PStr ''id'', PStr ''tx1'')]) else JSONDecodeError),
             str_exc = (\<lambda>e. ''error'')\<rparr>\<close>
        CONNECT_URL PNone \<open>''POST''\<close> 202 \<open>\<lparr>method_type = ''invoke'', log_lines = [], requests = []\<rparr>\<close> \<open>''accepted''\<close> \<open>[]\<close>]
    req_success_record
    [of \<open>\<lparr>json_loads = (\<lambda>b. if b = ''{"id": "tx1"}''
                               then Decoded (PDict [(PStr ''id'', PStr ''tx1'')]) else JSONDecodeError),
             str_exc = (\<lambda>e. ''error'')\<rparr>\<close>
        CONNECT_URL PNone \<open>''POST''\<close> 202 \<open>\<lparr>method_type = ''invoke'', log_lines = [], requests = []\<rparr>\<close>
        \<open>''{"id": "tx1"}''\<close> \<open>[(PStr ''id'', PStr ''tx1'')]\<close>]
  by (auto simp: dict_get_default_def dict_has_def)

text \<open>
  C7 as stated fails: the gateway answers a committed transaction with a body that
  has its own \<open>status\<close>, and the record then carries that value, not the response
  code 202.
\<close>

theorem req_success_status_counterexample:
  \<open>fst (req \<lparr>json_loads = (\<lambda>b. if b = ''{"status": "VALID"}''
                               then Decoded (PDict [(PStr ''status'', PStr ''VALID'')])
                               else JSONDecodeError),
             str_exc = (\<lambda>e. ''error'')\<rparr>
          CONNECT_URL PNone ''POST'' (Response 202 ''{"status": "VALID"}'')
          \<lparr>method_type = ''invoke'', log_lines = [], requests = []\<rparr>)
     = Inr [(PStr ''status'', PStr ''VALID'')]\<close>
  by (simp add: req_def Let_def)

text \<open>
  C10, as the code has it. On an HTTP success whose body decodes to a value that is
  not an object:
  \<^item> when the merge raises (the value is \<^verbatim>\<open>null\<close>, a boolean, a number, a string that
    is not empty, or an array with an element that is not a pair), the handler for
    \<^verbatim>\<open>Exception\<close> catches it and the record is \<open>err\<close> with the text of the exception and
    \<open>status\<close> 500;
  \<^item> when it does not (an empty array, an empty string, an array of pairs), the
    record is the success record after the merge; for the empty array and the empty
    string that is the response code under \<open>status\<close> and nothing else.
\<close>

theorem req_non_object_body:
  assumes "body \<noteq> []" and "json_loads py body = Decoded v" and "\<not> is_dict v"
  shows "(update_raises v \<longrightarrow>
            (\<exists>e. fst (req py url payload method (Response code body) s) =
                   Inr [(PStr ''err'', PStr (str_exc py e)), (PStr ''status'', PInt 500)])) \<and>
         (\<not> update_raises v \<longrightarrow>
            (\<exists>out. dict_update [(PStr ''status'', PInt code)] v = Inr out \<and>
                   fst (req py url payload method (Response code body) s) = Inr out)) \<and>
         (v = PList [] \<or> v = PStr [] \<longrightarrow>
            fst (req py url payload method (Response code body) s) = Inr [(PStr ''status'', PInt code)])"
proof (intro conjI impI)
  assume "update_raises v"
  then obtain e where "dict_update [(PStr ''status'', PInt code)] v = Inl e"
    using dict_update_raises by blast
  with assms show "\<exists>e. fst (req py url payload method (Response code body) s) =
                   Inr [(PStr ''err'', PStr (str_exc py e)), (PStr ''status'', PInt 500)]"
    by (auto simp: req_def Let_def)
next
  assume "\<not> update_raises v"
  then have "\<nexists>e. dict_update [(PStr ''status'', PInt code)] v = Inl e"
    using dict_update_raises by blast
  then obtain out where "dict_update [(PStr ''status'', PInt code)] v = Inr out"
    using not_Inl_Inr by blast
  with assms show "\<exists>out. dict_update [(PStr ''status'', PInt code)] v = Inr out \<and>
                   fst (req py url payload method (Response code body) s) = Inr out"
    by (simp add: req_def Let_def)
next
  assume "v = PList [] \<or> v = PStr []"
  with assms show "fst (req py url payload method (Response code body) s) = Inr [(PStr ''status'', PInt code)]"
    by (auto simp: req_def Let_def)
qed

theorem req_non_object_body_witness:
  "\<exists>e. fst (req \<lparr>json_loads = (\<lambda>b. if b = ''[1, 2]'' then Decoded (PList [PInt 1, PInt 2])
                                 else JSONDecodeError),
                 str_exc = (\<lambda>e. ''error'')\<rparr>
            QUERY_URL PNone ''POST'' (Response 200 ''[1, 2]'')
            \<lparr>method_type = ''query'', log_lines = [], requests = []\<rparr>)
     = Inr [(PStr ''err'', PStr (str_exc \<lparr>json_loads = (\<lambda>b. if b = ''[1, 2]'' then Decoded (PList [PInt 1, PInt 2])
                                 else JSONDecodeError),
                 str_exc = (\<lambda>e. ''error'')\<rparr> e)),
            (PStr ''status'', PInt 500)]"
  using req_non_object_body
    [of "''[1, 2]''"
        "\<lparr>json_loads = (\<lambda>b. if b = ''[1, 2]'' then Decoded (PList [PInt 1, PInt 2])
                                 else JSONDecodeError),
                 str_exc = (\<lambda>e. ''error'')\<rparr>"
        "PList [PInt 1, PInt 2]" QUERY_URL PNone "''POST''" 200
        "\<lparr>method_type = ''query'', log_lines = [], requests = []\<rparr>"]
  by (simp add: is_pair_def)

text \<open>
  C10 as stated fails: the empty array is valid JSON and not an object, the merge of
  no pairs succeeds, and the record is the success record with the response code.
\<close>

theorem req_non_object_body_counterexample:
  "fst (req \<lparr>json_loads = (\<lambda>b. if b = ''[]'' then Decoded (PList []) else JSONDecodeError),
             str_exc = (\<lambda>e. ''error'')\<rparr>
          QUERY_URL PNone ''POST'' (Response 200 ''[]'')
          \<lparr>method_type = ''query'', log_lines = [], requests = []\<rparr>)
     = Inr [(PStr ''status'', PInt 200)]"
  by (simp add: req_def Let_def)

section \<open>The wrappers on an unknown alias\<close>

lemma find_kid_None:
  "find_kid roster a = None \<longleftrightarrow> a \<notin> (\<lambda>(kid_name, alias, role). alias) ` set roster"
  by (induction roster a rule: find_kid.induct) auto

text \<open>
  C8. When the alias is that of no roster entry, each of the four wrappers returns
  the record \<open>err\<close> = \<open>Signer alias <alias> not found in ID_ROSTER\<close>, \<open>status\<close> = 0, and
  the list of requests handed to the network is the one it was called with: the
  wrapper returns before the transport call, whatever the network would have done.
\<close>

theorem unknown_alias_no_request:
  assumes "alias \<notin> (\<lambda>(kid_name, a, role). a) ` set ID_ROSTER"
  shows "fst (invoke_test py alias func str_args t s) =
           Inr [(PStr ''err'', PStr (''Signer alias '' @ alias @ '' not found in ID_ROSTER'')),
                (PStr ''status'', PInt 0)] \<and>
         fst (invoke_gemtest py alias func str_args t s) =
           Inr [(PStr ''err'', PStr (''Signer alias '' @ alias @ '' not found in ID_ROSTER'')),
                (PStr ''status'', PInt 0)] \<and>
         fst (query_test py alias func str_args t s) =
           Inr (PDict [(PStr ''err'', PStr (''Signer alias '' @ alias @ '' not found in ID_ROSTER'')),
                       (PStr ''status'', PInt 0)]) \<and>
         fst (query_gemtest py alias func str_args t s) =
           Inr (PDict [(PStr ''err'', PStr (''Signer alias '' @ alias @ '' not found in ID_ROSTER'')),
                       (PStr ''status'', PInt 0)]) \<and>
         requests (snd (invoke_test py alias func str_args t s)) = requests s \<and>
         requests (snd (invoke_gemtest py alias func str_args t s)) = requests s \<and>
         requests (snd (query_test py alias func str_args t s)) = requests s \<and>
         requests (snd (query_gemtest py alias func str_args t s)) = requests s"
proof -
  from assms have none: "find_kid ID_ROSTER alias = None"
    using find_kid_None [of ID_ROSTER "alias"] by blast
  have kid: "get_kaleido_kid_for_alias alias s' =
      (None, log_line ''WARNING: Could not find Kaleido kid_name for chaincode_alias in ID_ROSTER.'' s')" for s'
    by (simp add: get_kaleido_kid_for_alias_def none)
  show ?thesis
    by (simp add: invoke_test_def invoke_gemtest_def query_test_def query_gemtest_def kid
          alias_not_found_def)
qed

theorem unknown_alias_no_request_witness:
  "fst (invoke_test \<lparr>json_loads = (\<lambda>b. JSONDecodeError), str_exc = (\<lambda>e. ''error'')\<rparr>
          ''ghost_alias'' ''CreateShipment'' [''SHIP1''] (Response 202 [])
          \<lparr>method_type = ''query'', log_lines = [], requests = []\<rparr>) =
     Inr [(PStr ''err'', PStr ''Signer alias ghost_alias not found in ID_ROSTER''),
          (PStr ''status'', PInt 0)] \<and>
   fst (query_gemtest \<lparr>json_loads = (\<lambda>b. JSONDecodeError), str_exc = (\<lambda>e. ''error'')\<rparr>
          ''ghost_alias'' ''CreateShipment'' [''SHIP1''] (Response 202 [])
          \<lparr>method_type = ''query'', log_lines = [], requests = []\<rparr>) =
     Inr (PDict [(PStr ''err'', PStr ''Signer alias ghost_alias not found in ID_ROSTER''),
                 (PStr ''status'', PInt 0)]) \<and>
   requests (snd (invoke_test \<lparr>json_loads = (\<lambda>b. JSONDecodeError), str_exc = (\<lambda>e. ''error'')\<rparr>
          ''ghost_alias'' ''CreateShipment'' [''SHIP1''] (Response 202 [])
          \<lparr>method_type = ''query'', log_lines = [], requests = []\<rparr>)) = []"
  using unknown_alias_no_request
    [of "''ghost_alias''" "\<lparr>json_loads = (\<lambda>b. JSONDecodeError), str_exc = (\<lambda>e. ''error'')\<rparr>"
        "''CreateShipment''" "[''SHIP1'']" "Response 202 []"
        "\<lparr>method_type = ''query'', log_lines = [], requests = []\<rparr>"]
  by (simp add: ID_ROSTER_def)

section \<open>A query answered with a blank result\<close>

lemma kid_nonempty: "find_kid ID_ROSTER a = Some kid \<Longrightarrow> kid \<noteq> []"
  by (auto simp: ID_ROSTER_def split: if_splits)

lemma req_fst_state: "fst (req py u p m t s1) = fst (req py u p m t s2)"
  by (simp add: req_def Let_def split: transport.splits error_body.splits loads_result.splits sum.splits)

lemma req_method_type [simp]: "method_type (snd (req py u p m t s)) = method_type s"
  by (simp add: req_def Let_def split: transport.splits error_body.splits loads_result.splits sum.splits)

lemma unwrap_method_type [simp]: "method_type (snd (unwrap_result py r s)) = method_type s"
  by (simp add: unwrap_result_def split: pyval.splits loads_result.splits)

lemma is_substring_set: "is_substring sub t \<Longrightarrow> set sub \<subseteq> set t"
proof (induction t)
  case Nil
  then show ?case by simp
next
  case (Cons a t)
  from Cons.prems have "prefix sub (a # t) \<or> is_substring sub t"
    by simp
  then show ?case
  proof
    assume "prefix sub (a # t)"
    then show ?thesis by (rule set_mono_prefix)
  next
    assume "is_substring sub t"
    then have "set sub \<subseteq> set t" by (rule Cons.IH)
    then show ?thesis by auto
  qed
qed

lemma strip_blank:
  assumes "list_all is_space w"
  shows "str_strip w = []"
proof -
  from assms have "dropWhile is_space w = []"
    by (simp add: list_all_iff)
  then show ?thesis
    by (simp add: str_strip_def del: dropWhile_eq_Nil_conv)
qed

lemma space_lower:
  assumes "is_space c"
  shows "lower_char c = c"
proof -
  from assms have "c = CHR 0x09 \<or> c = CHR 0x0A \<or> c = CHR 0x0B \<or> c = CHR 0x0C \<or> c = CHR 0x0D \<or>
      c = CHR 0x1C \<or> c = CHR 0x1D \<or> c = CHR 0x1E \<or> c = CHR 0x1F \<or> c = CHR 0x20 \<or>
      c = CHR 0x85 \<or> c = CHR 0xA0"
    by (simp add: is_space_def)
  then show ?thesis
    by (elim disjE) (simp_all add: lower_char_def)
qed

lemma blank_no_marker:
  assumes "list_all is_space w"
  shows "\<not> is_substring ''Description: '' w \<and> \<not> is_substring ''chaincode response'' (str_lower w)"
proof -
  have d: "\<not> is_substring ''Description: '' w"
  proof
    assume "is_substring ''Description: '' w"
    then have "CHR ''D'' \<in> set w" using is_substring_set by fastforce
    with assms have "is_space CHR ''D''" by (simp add: list_all_iff)
    then show False by (simp add: is_space_def)
  qed
  have low: "str_lower w = w"
    using assms by (simp add: str_lower_def list_all_iff space_lower map_idI)
  have "\<not> is_substring ''chaincode response'' w"
  proof
    assume "is_substring ''chaincode response'' w"
    then have "CHR ''c'' \<in> set w" using is_substring_set by fastforce
    with assms have "is_space CHR ''c''" by (simp add: list_all_iff)
    then show False by (simp add: is_space_def)
  qed
  with d low show ?thesis by simp
qed

lemma query_blank:
  assumes "find_kid ID_ROSTER a = Some kid"
    and "fst (req py QUERY_URL (envelope kid f xs False) ''POST'' t s0) = Inr r"
    and "dict_get r ''status'' = PInt 200"
    and "dict_get r ''result'' = PStr w"
    and "list_all is_space w"
  shows "fst (query_test py a f xs t s) = Inr (PDict r) \<and>
         method_type (snd (query_test py a f xs t s)) = ''query'' \<and>
         fst (query_gemtest py a f xs t s) = Inr (PDict r) \<and>
         method_type (snd (query_gemtest py a f xs t s)) = ''query''"
proof -
  have kid: "get_kaleido_kid_for_alias a s' = (Some kid, s')" for s'
    by (simp add: get_kaleido_kid_for_alias_def assms(1))
  have "fst (req py QUERY_URL (envelope kid f xs False) ''POST'' t (s\<lparr>method_type := ''query''\<rparr>)) = Inr r"
    using assms(2) req_fst_state by metis
  then obtain s2 where r: "req py QUERY_URL (envelope kid f xs False) ''POST'' t (s\<lparr>method_type := ''query''\<rparr>) = (Inr r, s2)"
    by (metis prod.collapse)
  have m: "method_type s2 = ''query''"
    using req_method_type [of py QUERY_URL "envelope kid f xs False" "''POST''" t "s\<lparr>method_type := ''query''\<rparr>"]
    by (simp add: r)
  have u: "fst (unwrap_result py r s') = PNone" for s'
    by (simp add: unwrap_result_def assms(4) strip_blank [OF assms(5)])
  show ?thesis
    using kid_nonempty [OF assms(1)] u m assms(3)
    by (simp add: query_test_def query_gemtest_def query_test_return_def query_gemtest_return_def
          kid r Let_def split_beta)
qed

lemma has_marker_false_iff:
  "has_marker x = Inr False \<longleftrightarrow>
     (\<exists>m. x = PStr m \<and> \<not> is_substring ''Description: '' m \<and>
          \<not> is_substring ''chaincode response'' (str_lower m))"
  by (cases x) (auto simp: has_marker_def split: bool.splits)

lemma details_marker_false_iff:
  "details_marker v = Inr False \<longleftrightarrow>
     (\<not> is_dict v \<or>
      (\<exists>m. details_message v = PStr m \<and> \<not> is_substring ''Description: '' m \<and>
           \<not> is_substring ''chaincode response'' (str_lower m)))"
  by (cases v) (simp_all add: has_marker_false_iff)

lemma empty_details_no_marker: "details_marker (PDict []) = Inr False"
  by (simp add: has_marker_def py_or_def dict_get_default_def str_lower_def)

lemma ok_test_query200_verdict:
  "fst (ok_test_query200 r s) = Inr True \<longleftrightarrow> details_marker (dict_get r ''details'') = Inr False"
proof (cases "truthy (dict_get r ''details'') \<and> is_dict (dict_get r ''details'')")
  case True
  then show ?thesis
    by (cases "details_marker (dict_get r ''details'')")
       (auto simp: ok_test_query200_def Let_def split: bool.splits)
next
  case False
  have "details_marker (dict_get r ''details'') = Inr False"
  proof (cases "dict_get r ''details''")
    case (PDict d)
    with False have "d = []" by simp
    with PDict show ?thesis by (simp only: empty_details_no_marker)
  qed simp_all
  with False show ?thesis
    by (simp add: ok_test_query200_def Let_def)
qed

text \<open>
  C4, as the code has it. For a query on a resolved alias whose transport record has
  integer status 200 and a \<open>result\<close> that is a string of whitespace only (the empty
  string included): the string decodes to \<open>None\<close>; both versions of the wrapper return
  the full record, since the decoded value is returned only when it is not \<open>None\<close>;
  and the classifier, called on that record in the state the wrapper left, with the
  default codes, returns PASS
  \<^item> in test.py exactly when \<open>details\<close> is not a dictionary, or is one whose message
    (its \<open>error\<close> field, or its \<open>message\<close> field when \<open>error\<close> is absent or falsy, the
    empty string when both are) is a string that contains neither \<open>Description: \<close>
    nor, in lower case, \<open>chaincode response\<close>;
  \<^item> in gemtest.py exactly when the record has no truthy \<open>err\<close> field.
\<close>

theorem query_blank_result_returns_record:
  assumes "find_kid ID_ROSTER alias = Some kid"
    and "fst (req py QUERY_URL (envelope kid func str_args False) ''POST'' t s) = Inr r"
    and "dict_get r ''status'' = PInt 200"
    and "dict_get r ''result'' = PStr w"
    and "list_all is_space w"
  shows "fst (unwrap_result py r s) = PNone \<and>
         fst (query_test py alias func str_args t s) = Inr (PDict r) \<and>
         fst (query_gemtest py alias func str_args t s) = Inr (PDict r) \<and>
         (fst (ok_test r None (snd (query_test py alias func str_args t s))) = Inr True \<longleftrightarrow>
            \<not> is_dict (dict_get r ''details'') \<or>
            (\<exists>m. details_message (dict_get r ''details'') = PStr m \<and>
                 \<not> is_substring ''Description: '' m \<and>
                 \<not> is_substring ''chaincode response'' (str_lower m))) \<and>
         (fst (ok_gemtest r None (snd (query_gemtest py alias func str_args t s))) = Inr True \<longleftrightarrow>
            \<not> truthy (dict_get r ''err''))"
proof -
  note q = query_blank [OF assms, of s]
  have u: "fst (unwrap_result py r s) = PNone"
    by (simp add: unwrap_result_def assms(4) strip_blank [OF assms(5)])
  have "fst (ok_test r None (snd (query_test py alias func str_args t s))) = Inr True \<longleftrightarrow>
            details_marker (dict_get r ''details'') = Inr False"
    using q assms(3)
    by (simp add: ok_test_def Let_def expected_codes_def status_is_valid_def ok_test_query200_verdict)
  then have t: "fst (ok_test r None (snd (query_test py alias func str_args t s))) = Inr True \<longleftrightarrow>
            \<not> is_dict (dict_get r ''details'') \<or>
            (\<exists>m. details_message (dict_get r ''details'') = PStr m \<and>
                 \<not> is_substring ''Description: '' m \<and>
                 \<not> is_substring ''chaincode response'' (str_lower m))"
    by (simp only: details_marker_false_iff)
  have g: "fst (ok_gemtest r None (snd (query_gemtest py alias func str_args t s))) = Inr True \<longleftrightarrow>
            \<not> truthy (dict_get r ''err'')"
    using q assms(3,4) blank_no_marker [OF assms(5)]
    by (simp add: ok_gemtest_def Let_def expected_codes_def status_is_valid_def ok_gemtest_query200_def)
  from q u t g show ?thesis by blast
qed

theorem query_blank_result_returns_record_witness:
  \<open>fst (query_test \<lparr>json_loads = (\<lambda>b. if b = (''{"result": "'' @ [CHR 0xA0, CHR 0x20] @ ''"}'')
                                      then Decoded (PDict [(PStr ''result'', PStr [CHR 0xA0, CHR 0x20])])
                                      else JSONDecodeError),
                    str_exc = (\<lambda>e. ''error'')\<rparr>
          ''AliceAcres'' ''GetAllShipments'' [] (Response 200 (''{"result": "'' @ [CHR 0xA0, CHR 0x20] @ ''"}''))
          \<lparr>method_type = ''invoke'', log_lines = [], requests = []\<rparr>)
     = Inr (PDict [(PStr ''status'', PInt 200), (PStr ''result'', PStr [CHR 0xA0, CHR 0x20])]) \<and>
    fst (ok_test [(PStr ''status'', PInt 200), (PStr ''result'', PStr [CHR 0xA0, CHR 0x20])] None
       (snd (query_test \<lparr>json_loads = (\<lambda>b. if b = (''{"result": "'' @ [CHR 0xA0, CHR 0x20] @ ''"}'')
                                      then Decoded (PDict [(PStr ''result'', PStr [CHR 0xA0, CHR 0x20])])
                                      else JSONDecodeError),
                       str_exc = (\<lambda>e. ''error'')\<rparr>
          ''AliceAcres'' ''GetAllShipments'' [] (Response 200 (''{"result": "'' @ [CHR 0xA0, CHR 0x20] @ ''"}''))
          \<lparr>method_type = ''invoke'', log_lines = [], requests = []\<rparr>))) = Inr True\<close>
  using query_blank_result_returns_record [of \<open>''AliceAcres''\<close> \<open>''farmer_alice_tester''\<close>
      \<open>\<lparr>json_loads = (\<lambda>b. if b = (''{"result": "'' @ [CHR 0xA0, CHR 0x20] @ ''"}'')
                                      then Decoded (PDict [(PStr ''result'', PStr [CHR 0xA0, CHR 0x20])])
                                      else JSONDecodeError),
                       str_exc = (\<lambda>e. ''error'')\<rparr>\<close>
      \<open>''GetAllShipments''\<close> \<open>[]\<close> \<open>Response 200 (''{"result": "'' @ [CHR 0xA0, CHR 0x20] @ ''"}'')\<close>
      \<open>\<lparr>method_type = ''invoke'', log_lines = [], requests = []\<rparr>\<close>
      \<open>[(PStr ''status'', PInt 200), (PStr ''result'', PStr [CHR 0xA0, CHR 0x20])]\<close> \<open>[CHR 0xA0, CHR 0x20]\<close>]
  by (simp add: ID_ROSTER_def req_def Let_def dict_get_def dict_get_default_def is_space_def)

text \<open>
  C4 as stated fails: for the body \<^verbatim>\<open>{"result": ""}\<close> under status 200 both wrappers
  return the record \<^verbatim>\<open>{"status": 200, "result": ""}\<close>, not an absent value.
\<close>

theorem query_blank_result_counterexample:
  \<open>fst (query_test \<lparr>json_loads = (\<lambda>b. if b = ''{"result": ""}''
                                        then Decoded (PDict [(PStr ''result'', PStr [])]) else JSONDecodeError),
                       str_exc = (\<lambda>e. ''error'')\<rparr>
          ''AliceAcres'' ''GetAllShipments'' [] (Response 200 ''{"result": ""}'')
          \<lparr>method_type = ''invoke'', log_lines = [], requests = []\<rparr>)
     = Inr (PDict [(PStr ''status'', PInt 200), (PStr ''result'', PStr [])]) \<and>
    fst (query_gemtest \<lparr>json_loads = (\<lambda>b. if b = ''{"result": ""}''
                                        then Decoded (PDict [(PStr ''result'', PStr [])]) else JSONDecodeError),
                       str_exc = (\<lambda>e. ''error'')\<rparr>
          ''AliceAcres'' ''GetAllShipments'' [] (Response 200 ''{"result": ""}'')
          \<lparr>method_type = ''invoke'', log_lines = [], requests = []\<rparr>)
     = Inr (PDict [(PStr ''status'', PInt 200), (PStr ''result'', PStr [])])\<close>
  by (simp add: query_test_def query_gemtest_def query_test_return_def query_gemtest_return_def
       get_kaleido_kid_for_alias_def ID_ROSTER_def req_def Let_def
       dict_get_def dict_get_default_def dict_has_def unwrap_result_def str_strip_def)

end
